theory Spec2Isabelle
  imports Complex_Main
begin

section \<open>The L-BFGS-B optimizer adapter (qiskit/aqua/components/optimizers/l_bfgs_b.py)\<close>

text \<open>
  The file wraps \<^verbatim>\<open>scipy.optimize.fmin_l_bfgs_b\<close> as a subclass \<^verbatim>\<open>L_BFGS_B\<close> of the
  framework's \<^verbatim>\<open>Optimizer\<close> class. The embedding follows the class line by line: the
  class attribute \<^verbatim>\<open>CONFIGURATION\<close>, the constructor \<^verbatim>\<open>__init__\<close> and the method
  \<^verbatim>\<open>optimize\<close>. Exceptions are values of a sum type (\<open>Inl\<close> is a raised exception),
  dictionaries are maps or association lists, and the instance is a record that every
  method takes and returns.
\<close>

subsection \<open>Python values and exceptions\<close>

text \<open>
  Option values are Python objects. A float is carried as the real number it denotes;
  the adapter stores and forwards floats and never computes with them.
  \<open>PObject\<close> stands for any object that is no JSON value (the instance, a class).
\<close>

datatype pyval = PNone | PBool bool | PInt int | PFloat real | PStr string | PObject string

datatype exn =
    TypeError string
  | KeyError string
  | ValueError string
  | ValidationError string
  | ExternalError string

subsection \<open>The class attribute CONFIGURATION (lines 34-72)\<close>

datatype SupportLevel = not_supported | ignored | supported | required

record schema_property =
  prop_type :: string
  prop_default :: pyval

record json_schema =
  schema_uri :: string
  schema_id :: string
  schema_type :: string
  properties :: "(string \<times> schema_property) list"
  additionalProperties :: bool

record configuration =
  name :: string
  description :: string
  input_schema :: json_schema
  support_level :: "(string \<times> SupportLevel) list"
  options :: "string list"
  optimizer :: "string list"

definition CONFIGURATION :: configuration where
  "CONFIGURATION = \<lparr>
     name = ''L_BFGS_B'',
     description = ''L_BFGS_B Optimizer'',
     input_schema = \<lparr>
       schema_uri = ''http://json-schema.org/schema#'',
       schema_id = ''l_bfgs_b_schema'',
       schema_type = ''object'',
       properties = [
         (''maxfun'', \<lparr>prop_type = ''integer'', prop_default = PInt 1000\<rparr>),
         (''maxiter'', \<lparr>prop_type = ''integer'', prop_default = PInt 15000\<rparr>),
         (''factr'', \<lparr>prop_type = ''integer'', prop_default = PInt 10\<rparr>),
         (''iprint'', \<lparr>prop_type = ''integer'', prop_default = PInt (- 1)\<rparr>),
         (''epsilon'', \<lparr>prop_type = ''number'', prop_default = PFloat (1 / 10 ^ 8)\<rparr>)],
       additionalProperties = False\<rparr>,
     support_level = [(''gradient'', supported), (''bounds'', supported),
       (''initial_point'', required)],
     options = [''maxfun'', ''maxiter'', ''factr'', ''iprint'', ''epsilon''],
     optimizer = [''local'']\<rparr>"

subsection \<open>The instance\<close>

text \<open>
  The attributes of an instance that the file reads or writes: \<^verbatim>\<open>self._configuration\<close>,
  the dictionary \<^verbatim>\<open>self._options\<close> and the flag \<^verbatim>\<open>self._batch_mode\<close>.
\<close>

record adapter =
  self_configuration :: configuration
  self_options :: "string \<rightharpoonup> pyval"
  self_batch_mode :: bool

subsection \<open>Calling the constructor: Python's binding of arguments to parameters\<close>

text \<open>
  The parameters of \<^verbatim>\<open>__init__\<close> after \<^verbatim>\<open>self\<close>, with their defaults (line 74).
\<close>

definition init_params :: "(string \<times> pyval) list" where
  "init_params = [
     (''maxfun'', PInt 1000),
     (''maxiter'', PInt 15000),
     (''factr'', PInt 10),
     (''iprint'', PInt (- 1)),
     (''epsilon'', PFloat (1 / 10 ^ 8))]"

text \<open>
  A call \<^verbatim>\<open>L_BFGS_B(*args, **kwargs)\<close> binds positional arguments to the parameters in
  order and keyword arguments by name; Python raises \<^verbatim>\<open>TypeError\<close> for too many
  positional arguments, a repeated keyword, a keyword that names no parameter and a
  parameter given both ways. A parameter that is not given takes its default.
\<close>

fun bind_from :: "(string \<times> pyval) list \<Rightarrow> pyval list \<Rightarrow> (string \<times> pyval) list
    \<Rightarrow> (string \<times> pyval) list" where
  "bind_from [] args kwargs = []"
| "bind_from ((k, d) # ps) (a # args) kwargs = (k, a) # bind_from ps args kwargs"
| "bind_from ((k, d) # ps) [] kwargs =
     (k, (case map_of kwargs k of Some v \<Rightarrow> v | None \<Rightarrow> d)) # bind_from ps [] kwargs"

definition bind_params :: "(string \<times> pyval) list \<Rightarrow> pyval list \<Rightarrow> (string \<times> pyval) list
    \<Rightarrow> exn + (string \<times> pyval) list" where
  "bind_params params args kwargs =
     (if length params < length args then
        Inl (TypeError ''too many positional arguments'')
      else if \<not> distinct (map fst kwargs) then
        Inl (TypeError ''keyword argument repeated'')
      else if list_ex (\<lambda>k. k \<notin> set (map fst params)) (map fst kwargs) then
        Inl (TypeError ''unexpected keyword argument'')
      else if list_ex (\<lambda>k. k \<in> set (take (length args) (map fst params))) (map fst kwargs) then
        Inl (TypeError ''multiple values for argument'')
      else Inr (bind_from params args kwargs))"

subsection \<open>The base class's part in construction\<close>

text \<open>
  Modelled from the spec: the schema validator behind \<^verbatim>\<open>validate\<close> is not in the source
  file. Which Python values a declared JSON-schema type accepts: a Python \<^verbatim>\<open>bool\<close> is no
  \<^verbatim>\<open>integer\<close> and no \<^verbatim>\<open>number\<close>, and a \<^verbatim>\<open>float\<close> is no \<^verbatim>\<open>integer\<close>.
\<close>

fun has_type :: "string \<Rightarrow> pyval \<Rightarrow> bool" where
  "has_type ty (PInt i) = (ty = ''integer'' \<or> ty = ''number'')"
| "has_type ty (PFloat r) = (ty = ''number'')"
| "has_type ty (PBool b) = (ty = ''boolean'')"
| "has_type ty (PStr s) = (ty = ''string'')"
| "has_type ty PNone = (ty = ''null'')"
| "has_type ty (PObject s) = False"

text \<open>
  Modelled from the spec: the method \<^verbatim>\<open>validate\<close> that \<^verbatim>\<open>__init__\<close> inherits is not in
  the source file. The spec (4.1, 6, 7) has it validate every provided option value
  against the declared schema: the value must have the declared type, and the schema
  admits no additional properties. The other local names that \<^verbatim>\<open>locals()\<close> holds (the
  receiver \<^verbatim>\<open>self\<close>) are no option values and are not validated: construction with the
  defaults succeeds. A failure raises the validation error.
\<close>

definition validate :: "configuration \<Rightarrow> (string \<times> pyval) list \<Rightarrow> exn + unit" where
  "validate cfg args_dict =
     (let schema = input_schema cfg;
          json_dict = filter (\<lambda>(k, v). k \<in> set (map fst (properties schema))) args_dict
      in case find (\<lambda>(k, v). case map_of (properties schema) k of
                       None \<Rightarrow> \<not> additionalProperties schema
                     | Some p \<Rightarrow> \<not> has_type (prop_type p) v) json_dict of
           None \<Rightarrow> Inr ()
         | Some (k, v) \<Rightarrow> Inl (ValidationError k))"

text \<open>
  Modelled from the spec: the base constructor \<^verbatim>\<open>Optimizer.__init__\<close> is not in the
  source file. By the spec (3, 6) it gives the instance its configuration and the
  schema-driven options dictionary, which holds nothing before the constructor of
  \<^verbatim>\<open>L_BFGS_B\<close> fills it, and the base reports the batch-mode capability; the spec leaves
  the value of that flag open, so it is the parameter \<open>batch_mode\<close>.
\<close>

definition Optimizer_init :: "bool \<Rightarrow> adapter" where
  "Optimizer_init batch_mode =
     \<lparr>self_configuration = CONFIGURATION, self_options = Map.empty,
      self_batch_mode = batch_mode\<rparr>"

subsection \<open>The constructor (lines 74-104)\<close>

text \<open>
  The loop of lines 102-104 over \<^verbatim>\<open>locals().items()\<close>: a local whose name is a declared
  option is stored in \<^verbatim>\<open>self._options\<close>.
\<close>

fun store_options :: "(string \<times> pyval) list \<Rightarrow> adapter \<Rightarrow> adapter" where
  "store_options [] self = self"
| "store_options ((k, v) # kvs) self =
     store_options kvs
       (if k \<in> set (options (self_configuration self))
        then self\<lparr>self_options := (self_options self)(k \<mapsto> v)\<rparr>
        else self)"

text \<open>
  \<^verbatim>\<open>locals()\<close> in \<^verbatim>\<open>__init__\<close> holds the receiver, the five parameters and, since the
  method calls \<^verbatim>\<open>super()\<close>, the cell \<^verbatim>\<open>__class__\<close>.
\<close>

definition init_locals :: "(string \<times> pyval) list \<Rightarrow> (string \<times> pyval) list" where
  "init_locals bound =
     (''self'', PObject ''L_BFGS_B'') # bound @ [(''__class__'', PObject ''type'')]"

definition L_BFGS_B_init :: "bool \<Rightarrow> pyval list \<Rightarrow> (string \<times> pyval) list \<Rightarrow> exn + adapter" where
  "L_BFGS_B_init batch_mode args kwargs =
     (case bind_params init_params args kwargs of
        Inl e \<Rightarrow> Inl e
      | Inr bound \<Rightarrow>
          (case validate CONFIGURATION (init_locals bound) of
             Inl e \<Rightarrow> Inl e
           | Inr u \<Rightarrow> Inr (store_options (init_locals bound) (Optimizer_init batch_mode))))"

subsection \<open>The collaborators of optimize\<close>

text \<open>
  What \<^verbatim>\<open>fmin_l_bfgs_b\<close> is called with at lines 114-115: two positional arguments, the
  keywords \<^verbatim>\<open>bounds\<close>, \<^verbatim>\<open>fprime\<close> and \<^verbatim>\<open>approx_grad\<close>, and the unpacked dictionary
  \<^verbatim>\<open>**self._options\<close>. Points are of type \<open>'x\<close>, objective values of type \<open>'y\<close>, bounds
  of type \<open>'b\<close>; the adapter only hands them on.
\<close>

record ('x, 'y, 'b) solver_call =
  func :: "'x \<Rightarrow> 'y"
  x0 :: "'x option"
  call_bounds :: "'b option"
  fprime :: "('x \<Rightarrow> 'x) option"
  approx_grad :: bool
  solver_options :: "string \<rightharpoonup> pyval"

text \<open>
  The code that \<^verbatim>\<open>optimize\<close> calls and the file does not hold, as parameters:
  \<^verbatim>\<open>super().optimize\<close> (the request check of the base class, which returns or raises),
  the static helpers \<^verbatim>\<open>Optimizer.gradient_num_diff\<close> and \<^verbatim>\<open>Optimizer.wrap_function\<close>
  (which returns a function), and the solver \<^verbatim>\<open>scipy.optimize.fmin_l_bfgs_b\<close>, which
  returns the final point, the final value and the dictionary \<^verbatim>\<open>info\<close>, or raises.
\<close>

record ('x, 'y, 'b) collaborators =
  Optimizer_optimize :: "adapter \<Rightarrow> int \<Rightarrow> ('x \<Rightarrow> 'y) \<Rightarrow> ('x \<Rightarrow> 'x) option \<Rightarrow> 'b option
    \<Rightarrow> 'x option \<Rightarrow> exn + unit"
  gradient_num_diff :: "'x \<Rightarrow> ('x \<Rightarrow> 'y) \<Rightarrow> pyval \<Rightarrow> 'x"
  wrap_function :: "('x \<Rightarrow> ('x \<Rightarrow> 'y) \<Rightarrow> pyval \<Rightarrow> 'x) \<Rightarrow> ('x \<Rightarrow> 'y) \<times> pyval \<Rightarrow> 'x \<Rightarrow> 'x"
  fmin_l_bfgs_b :: "('x, 'y, 'b) solver_call \<Rightarrow> exn + 'x \<times> 'y \<times> (string \<rightharpoonup> pyval)"

subsection \<open>optimize (lines 106-117)\<close>

text \<open>
  One run of \<^verbatim>\<open>optimize\<close>: what the caller gets (the returned triple or the raised
  exception), the instance after the call, and the calls made to the solver, in order.
\<close>

record ('x, 'y, 'b) run =
  outcome :: "exn + 'x \<times> 'y \<times> pyval"
  adapter_after :: adapter
  solver_calls :: "('x, 'y, 'b) solver_call list"

text \<open>
  A call with explicit keywords and an unpacked dictionary raises \<^verbatim>\<open>TypeError\<close> before
  the callee runs when the dictionary repeats one of the explicit keywords.
\<close>

definition keyword_clash :: "(string \<rightharpoonup> pyval) \<Rightarrow> bool" where
  "keyword_clash d = list_ex (\<lambda>k. d k \<noteq> None) [''bounds'', ''fprime'', ''approx_grad'']"

definition optimize :: "('x, 'y, 'b) collaborators \<Rightarrow> adapter \<Rightarrow> int \<Rightarrow> ('x \<Rightarrow> 'y)
    \<Rightarrow> ('x \<Rightarrow> 'x) option \<Rightarrow> 'b option \<Rightarrow> 'x option \<Rightarrow> ('x, 'y, 'b) run" where
  "optimize env self num_vars objective_function gradient_function variable_bounds
       initial_point =
     (case Optimizer_optimize env self num_vars objective_function gradient_function
             variable_bounds initial_point of
        Inl e \<Rightarrow> \<lparr>outcome = Inl e, adapter_after = self, solver_calls = []\<rparr>
      | Inr u \<Rightarrow>
          (case (case gradient_function of
                   None \<Rightarrow>
                     if self_batch_mode self then
                       (case self_options self ''epsilon'' of
                          None \<Rightarrow> Inl (KeyError ''epsilon'')
                        | Some epsilon \<Rightarrow>
                            Inr (Some (wrap_function env (gradient_num_diff env)
                                         (objective_function, epsilon))))
                     else Inr None
                 | Some g \<Rightarrow> Inr (Some g)) of
             Inl e \<Rightarrow> \<lparr>outcome = Inl e, adapter_after = self, solver_calls = []\<rparr>
           | Inr gradient_function' \<Rightarrow>
               (let approx_grad' = (case gradient_function' of None \<Rightarrow> True | Some g \<Rightarrow> False);
                    call = \<lparr>func = objective_function, x0 = initial_point,
                            call_bounds = variable_bounds, fprime = gradient_function',
                            approx_grad = approx_grad', solver_options = self_options self\<rparr>
                in if keyword_clash (self_options self) then
                     \<lparr>outcome = Inl (TypeError ''multiple values for keyword argument''),
                      adapter_after = self, solver_calls = []\<rparr>
                   else
                     (case fmin_l_bfgs_b env call of
                        Inl e \<Rightarrow> \<lparr>outcome = Inl e, adapter_after = self, solver_calls = [call]\<rparr>
                      | Inr (sol, opt, info) \<Rightarrow>
                          (case info ''funcalls'' of
                             None \<Rightarrow>
                               \<lparr>outcome = Inl (KeyError ''funcalls''), adapter_after = self,
                                solver_calls = [call]\<rparr>
                           | Some n \<Rightarrow>
                               \<lparr>outcome = Inr (sol, opt, n), adapter_after = self,
                                solver_calls = [call]\<rparr>)))))"

subsection \<open>The value given at construction\<close>

text \<open>
  In the words of the interface: the value given for the \<open>i\<close>-th option in a call
  \<^verbatim>\<open>L_BFGS_B(*args, **kwargs)\<close> is the \<open>i\<close>-th positional argument when there is one,
  else the keyword argument of the option's name when there is one, else the declared
  default. It is compared below with what \<open>bind_params\<close> binds and \<open>store_options\<close> stores.
\<close>

definition value_given :: "pyval list \<Rightarrow> (string \<times> pyval) list \<Rightarrow> nat \<Rightarrow> pyval" where
  "value_given args kwargs i =
     (if i < length args then args ! i
      else (case map_of kwargs (fst (init_params ! i)) of
              Some v \<Rightarrow> v
            | None \<Rightarrow> snd (init_params ! i)))"

subsection \<open>A sample environment\<close>

text \<open>
  Concrete collaborators on which the theorems below are instantiated: a request check
  that wants an initial point of the stated dimension, the forward difference as the
  numerical gradient, and a solver that checks the bounds against the initial point
  and stops there after one evaluation. The objective is
  \<open>(x - 1)\<^sup>2 + (y - 2)\<^sup>2\<close>, with its analytic gradient.
\<close>

type_synonym sample_bounds = "(real option \<times> real option) list"

definition sample_check :: "adapter \<Rightarrow> int \<Rightarrow> (real list \<Rightarrow> real) \<Rightarrow> (real list \<Rightarrow> real list) option
    \<Rightarrow> sample_bounds option \<Rightarrow> real list option \<Rightarrow> exn + unit" where
  "sample_check self n f g b p =
     (case p of
        None \<Rightarrow> Inl (ValueError ''Initial point is required but None given'')
      | Some x \<Rightarrow>
          if int (length x) \<noteq> n then Inl (ValueError ''Initial point does not match dimension'')
          else Inr ())"

definition sample_num_diff :: "real list \<Rightarrow> (real list \<Rightarrow> real) \<Rightarrow> pyval \<Rightarrow> real list" where
  "sample_num_diff x f epsilon =
     (case epsilon of
        PFloat h \<Rightarrow> map (\<lambda>i. (f (x[i := x ! i + h]) - f x) / h) [0..<length x]
      | _ \<Rightarrow> [])"

definition sample_solver :: "(real list, real, sample_bounds) solver_call
    \<Rightarrow> exn + real list \<times> real \<times> (string \<rightharpoonup> pyval)" where
  "sample_solver c =
     (case x0 c of
        None \<Rightarrow> Inl (TypeError ''x0'')
      | Some x \<Rightarrow>
          if (case call_bounds c of None \<Rightarrow> False | Some bs \<Rightarrow> length bs \<noteq> length x)
          then Inl (ValueError ''length of x0 != length of bounds'')
          else Inr (x, func c x, [''funcalls'' \<mapsto> PInt 1, ''nit'' \<mapsto> PInt 0]))"

definition sample_env :: "(real list, real, sample_bounds) collaborators" where
  "sample_env =
     \<lparr>Optimizer_optimize = sample_check,
      gradient_num_diff = sample_num_diff,
      wrap_function = (\<lambda>function (f, epsilon) x. function x f epsilon),
      fmin_l_bfgs_b = sample_solver\<rparr>"

definition sample_objective :: "real list \<Rightarrow> real" where
  "sample_objective v = (case v of [x, y] \<Rightarrow> (x - 1) ^ 2 + (y - 2) ^ 2 | _ \<Rightarrow> 0)"

definition sample_gradient :: "real list \<Rightarrow> real list" where
  "sample_gradient v = (case v of [x, y] \<Rightarrow> [2 * (x - 1), 2 * (y - 2)] | _ \<Rightarrow> [])"

definition default_options :: "string \<rightharpoonup> pyval" where
  "default_options = [''maxfun'' \<mapsto> PInt 1000, ''maxiter'' \<mapsto> PInt 15000,
     ''factr'' \<mapsto> PInt 10, ''iprint'' \<mapsto> PInt (- 1), ''epsilon'' \<mapsto> PFloat (1 / 10 ^ 8)]"

definition sample_self :: "bool \<Rightarrow> adapter" where
  "sample_self batch_mode =
     \<lparr>self_configuration = CONFIGURATION, self_options = default_options,
      self_batch_mode = batch_mode\<rparr>"

section \<open>Construction\<close>

subsection \<open>What the call binds\<close>

lemma length_bind_from: "length (bind_from ps args kw) = length ps"
  by (induction ps args kw rule: bind_from.induct) simp_all

lemma nth_bind_from:
  "i < length ps \<Longrightarrow>
     bind_from ps args kw ! i =
       (fst (ps ! i),
        if i < length args then args ! i
        else (case map_of kw (fst (ps ! i)) of Some v \<Rightarrow> v | None \<Rightarrow> snd (ps ! i)))"
proof (induction ps args kw arbitrary: i rule: bind_from.induct)
  case (1 args kw)
  then show ?case by simp
next
  case (2 k d ps a args kw)
  then show ?case by (cases i) (simp_all split: option.split)
next
  case (3 k d ps kw)
  then show ?case by (cases i) (simp_all split: option.split)
qed

lemma bind_from_init_params:
  "bind_from init_params args kw =
     map (\<lambda>i. (fst (init_params ! i), value_given args kw i)) [0, 1, 2, 3, 4]"
proof (rule nth_equalityI)
  show "length (bind_from init_params args kw) =
      length (map (\<lambda>i. (fst (init_params ! i), value_given args kw i)) [0, 1, 2, 3, 4::nat])"
    by (simp add: length_bind_from) (simp add: init_params_def)
next
  fix i
  assume "i < length (bind_from init_params args kw)"
  then have i: "i < length init_params"
    by (simp add: length_bind_from)
  then have "i < 5"
    by (simp add: init_params_def)
  then have "i = 0 \<or> i = 1 \<or> i = 2 \<or> i = 3 \<or> i = 4"
    by arith
  then have "[0, 1, 2, 3, 4::nat] ! i = i"
    by auto
  moreover have "length [0, 1, 2, 3, 4::nat] = 5"
    by simp
  ultimately show "bind_from init_params args kw ! i =
      map (\<lambda>i. (fst (init_params ! i), value_given args kw i)) [0, 1, 2, 3, 4] ! i"
    using i \<open>i < 5\<close> by (simp only: nth_bind_from nth_map value_given_def)
qed

lemma bind_from_values:
  "bind_from init_params args kw =
     [(''maxfun'', value_given args kw 0), (''maxiter'', value_given args kw 1),
      (''factr'', value_given args kw 2), (''iprint'', value_given args kw 3),
      (''epsilon'', value_given args kw 4)]"
  unfolding bind_from_init_params by (simp add: init_params_def)

lemma bind_params_Inr:
  "bind_params init_params args kw = Inr bound \<Longrightarrow> bound = bind_from init_params args kw"
  by (simp add: bind_params_def split: if_splits)

lemma bind_params_defaults: "bind_params init_params [] [] = Inr init_params"
  by (simp add: bind_params_def init_params_def)

subsection \<open>What validation rejects\<close>

lemma validate_defaults: "validate CONFIGURATION (init_locals init_params) = Inr ()"
  by (simp add: validate_def CONFIGURATION_def init_locals_def init_params_def)

lemma validate_bad:
  assumes "(k, v) \<in> set xs" and "map_of (properties (input_schema cfg)) k = Some pr"
    and "\<not> has_type (prop_type pr) v"
  shows "\<exists>k'. validate cfg xs = Inl (ValidationError k')"
proof -
  let ?P = "\<lambda>(k, v). case map_of (properties (input_schema cfg)) k of
                       None \<Rightarrow> \<not> additionalProperties (input_schema cfg)
                     | Some p \<Rightarrow> \<not> has_type (prop_type p) v"
  let ?js = "filter (\<lambda>(k, v). k \<in> set (map fst (properties (input_schema cfg)))) xs"
  from assms(2) have "k \<in> set (map fst (properties (input_schema cfg)))"
    by (metis map_of_eq_None_iff option.distinct(1) set_map)
  with assms(1) have "(k, v) \<in> set ?js"
    by simp
  moreover from assms(2,3) have "?P (k, v)"
    by simp
  ultimately have "find ?P ?js \<noteq> None"
    unfolding find_None_iff by blast
  then obtain k' v' where "find ?P ?js = Some (k', v')"
    by (cases "find ?P ?js") auto
  then show ?thesis
    by (simp add: validate_def Let_def)
qed

subsection \<open>What the constructor stores\<close>

lemma store_bound_options:
  "self_options (store_options (init_locals
       [(''maxfun'', v0), (''maxiter'', v1), (''factr'', v2), (''iprint'', v3), (''epsilon'', v4)])
       (Optimizer_init bm)) =
     [''maxfun'' \<mapsto> v0, ''maxiter'' \<mapsto> v1, ''factr'' \<mapsto> v2, ''iprint'' \<mapsto> v3, ''epsilon'' \<mapsto> v4]"
  by (simp add: init_locals_def Optimizer_init_def CONFIGURATION_def)

lemma init_options:
  assumes "L_BFGS_B_init bm args kw = Inr self"
  shows "self_options self =
     [''maxfun'' \<mapsto> value_given args kw 0, ''maxiter'' \<mapsto> value_given args kw 1,
      ''factr'' \<mapsto> value_given args kw 2, ''iprint'' \<mapsto> value_given args kw 3,
      ''epsilon'' \<mapsto> value_given args kw 4]"
proof -
  from assms obtain bound where b: "bind_params init_params args kw = Inr bound"
    and s: "self = store_options (init_locals bound) (Optimizer_init bm)"
    by (auto simp add: L_BFGS_B_init_def split: sum.splits)
  from b have "bound = bind_from init_params args kw"
    by (rule bind_params_Inr)
  with s show ?thesis
    by (simp only: bind_from_values store_bound_options)
qed

lemma no_clash_after_init:
  assumes "L_BFGS_B_init bm args kw = Inr self"
  shows "\<not> keyword_clash (self_options self)"
  by (simp add: init_options [OF assms] keyword_clash_def)

text \<open>
  C4. Construction with no arguments succeeds, and the options dictionary of the new
  instance holds exactly the five defaults: maxfun = 1000, maxiter = 15000, factr = 10,
  iprint = -1, epsilon = 1e-8.
\<close>

theorem init_defaults:
  "\<exists>self. L_BFGS_B_init batch_mode [] [] = Inr self \<and>
     self_options self = [''maxfun'' \<mapsto> PInt 1000, ''maxiter'' \<mapsto> PInt 15000,
       ''factr'' \<mapsto> PInt 10, ''iprint'' \<mapsto> PInt (- 1), ''epsilon'' \<mapsto> PFloat (1 / 10 ^ 8)]"
  by (simp add: L_BFGS_B_init_def bind_params_defaults validate_defaults)
     (simp add: init_locals_def init_params_def Optimizer_init_def CONFIGURATION_def)

theorem init_defaults_witness:
  "L_BFGS_B_init False [] [] =
     Inr \<lparr>self_configuration = CONFIGURATION,
          self_options = [''maxfun'' \<mapsto> PInt 1000, ''maxiter'' \<mapsto> PInt 15000,
            ''factr'' \<mapsto> PInt 10, ''iprint'' \<mapsto> PInt (- 1), ''epsilon'' \<mapsto> PFloat (1 / 10 ^ 8)],
          self_batch_mode = False\<rparr>"
  using init_defaults [of False]
  by (simp add: L_BFGS_B_init_def bind_params_defaults validate_defaults)
     (simp add: init_locals_def init_params_def Optimizer_init_def CONFIGURATION_def)

text \<open>
  C5. A constructor call that gives an option a value that is not of the option's
  declared schema type fails: the call raises Python's \<^verbatim>\<open>TypeError\<close> when its arguments do
  not bind, and otherwise schema validation raises. A call with a keyword that is none
  of the five declared option names fails with \<^verbatim>\<open>TypeError\<close>.
\<close>

theorem init_rejects_bad_arguments:
  "(i < 5 \<and> map_of (properties (input_schema CONFIGURATION)) (fst (init_params ! i)) = Some pr \<and>
      \<not> has_type (prop_type pr) (value_given args kw i) \<longrightarrow>
      (case bind_params init_params args kw of
         Inl e \<Rightarrow> L_BFGS_B_init bm args kw = Inl e
       | Inr bound \<Rightarrow> (\<exists>k. L_BFGS_B_init bm args kw = Inl (ValidationError k)))) \<and>
   (k \<in> set (map fst kw) \<and> k \<notin> set (options CONFIGURATION) \<longrightarrow>
      (\<exists>m. L_BFGS_B_init bm args kw = Inl (TypeError m)))"
proof (intro conjI impI)
  assume a: "i < 5 \<and>
      map_of (properties (input_schema CONFIGURATION)) (fst (init_params ! i)) = Some pr \<and>
      \<not> has_type (prop_type pr) (value_given args kw i)"
  show "case bind_params init_params args kw of
         Inl e \<Rightarrow> L_BFGS_B_init bm args kw = Inl e
       | Inr bound \<Rightarrow> (\<exists>k. L_BFGS_B_init bm args kw = Inl (ValidationError k))"
  proof (cases "bind_params init_params args kw")
    case (Inl e)
    then show ?thesis
      by (simp add: L_BFGS_B_init_def)
  next
    case (Inr bound)
    then have bound: "bound = bind_from init_params args kw"
      by (rule bind_params_Inr)
    from a have "i = 0 \<or> i = 1 \<or> i = 2 \<or> i = 3 \<or> i = 4"
      by arith
    then have "(fst (init_params ! i), value_given args kw i) \<in> set bound"
      unfolding bound bind_from_values by (auto simp add: init_params_def)
    then have "(fst (init_params ! i), value_given args kw i) \<in> set (init_locals bound)"
      by (simp add: init_locals_def)
    with a obtain k' where
      "validate CONFIGURATION (init_locals bound) = Inl (ValidationError k')"
      using validate_bad by blast
    with Inr show ?thesis
      by (simp add: L_BFGS_B_init_def)
  qed
next
  assume a: "k \<in> set (map fst kw) \<and> k \<notin> set (options CONFIGURATION)"
  then have "list_ex (\<lambda>k. k \<notin> set (map fst init_params)) (map fst kw)"
    unfolding list_ex_iff by (auto simp add: init_params_def CONFIGURATION_def)
  then have "\<exists>m. bind_params init_params args kw = Inl (TypeError m)"
    by (simp add: bind_params_def)
  then show "\<exists>m. L_BFGS_B_init bm args kw = Inl (TypeError m)"
    by (auto simp add: L_BFGS_B_init_def)
qed

theorem init_rejects_bad_arguments_witness:
  "L_BFGS_B_init False [] [(''maxiter'', PStr ''many'')] = Inl (ValidationError ''maxiter'') \<and>
   L_BFGS_B_init False [PInt 500] [(''tol'', PFloat (1 / 10 ^ 6))] =
     Inl (TypeError ''unexpected keyword argument'')"
  using init_rejects_bad_arguments [of 1 "\<lparr>prop_type = ''integer'', prop_default = PInt 15000\<rparr>"
      "[]" "[(''maxiter'', PStr ''many'')]" False "''tol''"]
    init_rejects_bad_arguments [of 1 "\<lparr>prop_type = ''integer'', prop_default = PInt 15000\<rparr>"
      "[PInt 500]" "[(''tol'', PFloat (1 / 10 ^ 6))]" False "''tol''"]
  by (simp add: L_BFGS_B_init_def bind_params_def init_params_def validate_def
      CONFIGURATION_def init_locals_def)

text \<open>
  C6. The declared schema type of \<^verbatim>\<open>factr\<close> is \<^verbatim>\<open>integer\<close> (line 51), although the
  constructor's docstring calls it a float: constructing with \<^verbatim>\<open>factr=10.5\<close> does not
  succeed, schema validation raises.
\<close>

theorem init_rejects_float_factr:
  "L_BFGS_B_init bm [] [(''factr'', PFloat (21 / 2))] = Inl (ValidationError ''factr'')"
  by (simp add: L_BFGS_B_init_def bind_params_def init_params_def validate_def
      CONFIGURATION_def init_locals_def)

section \<open>optimize\<close>

subsection \<open>The solver call\<close>

lemma adapter_after_optimize: "adapter_after (optimize env self n f g b p) = self"
  by (simp add: optimize_def Let_def split: sum.split option.split prod.split)

lemma solver_calls_at_most_one: "length (solver_calls (optimize env self n f g b p)) \<le> 1"
  by (simp add: optimize_def Let_def split: sum.split option.split prod.split)

lemma solver_call_shape:
  assumes "c \<in> set (solver_calls (optimize env self n f g b p))"
  shows "func c = f \<and> x0 c = p \<and> call_bounds c = b \<and>
         solver_options c = self_options self \<and>
         approx_grad c = (fprime c = None) \<and>
         fprime c =
           (case g of
              Some g' \<Rightarrow> Some g'
            | None \<Rightarrow>
                if self_batch_mode self
                then map_option (\<lambda>epsilon. wrap_function env (gradient_num_diff env) (f, epsilon))
                       (self_options self ''epsilon'')
                else None)"
  using assms
  by (auto simp add: optimize_def Let_def split: sum.splits option.splits prod.splits if_splits)

lemma solver_called_once:
  assumes "Optimizer_optimize env self n f g b p = Inr ()"
    and "\<not> keyword_clash (self_options self)"
    and "self_options self ''epsilon'' = Some eps"
  shows "length (solver_calls (optimize env self n f g b p)) = 1"
  using assms
  by (simp add: optimize_def Let_def split: sum.split option.split prod.split)

text \<open>
  C1. When no gradient function is given and the instance is in batch mode, every call
  that \<^verbatim>\<open>optimize\<close> makes to the solver passes as \<^verbatim>\<open>fprime\<close> the function
  \<^verbatim>\<open>wrap_function(gradient_num_diff, (objective_function, epsilon))\<close> for the configured
  \<^verbatim>\<open>epsilon\<close>, with \<^verbatim>\<open>approx_grad\<close> false; and when the request check of the base class
  passes (for an instance whose options hold \<^verbatim>\<open>epsilon\<close> and repeat no explicit keyword)
  that one call is made.
\<close>

theorem optimize_batch_gradient:
  assumes "self_batch_mode self"
  shows "(\<forall>c \<in> set (solver_calls (optimize env self n f None b p)).
            \<exists>epsilon. self_options self ''epsilon'' = Some epsilon \<and>
              fprime c = Some (wrap_function env (gradient_num_diff env) (f, epsilon)) \<and>
              \<not> approx_grad c) \<and>
         (Optimizer_optimize env self n f None b p = Inr () \<and>
          self_options self ''epsilon'' = Some eps \<and> \<not> keyword_clash (self_options self) \<longrightarrow>
            solver_calls (optimize env self n f None b p) =
              [\<lparr>func = f, x0 = p, call_bounds = b,
                fprime = Some (wrap_function env (gradient_num_diff env) (f, eps)),
                approx_grad = False, solver_options = self_options self\<rparr>])"
  using assms
  by (simp add: optimize_def Let_def split: sum.split option.split prod.split)

theorem optimize_batch_gradient_witness:
  "solver_calls (optimize sample_env (sample_self True) 2 sample_objective None None
       (Some [0, 0])) =
     [\<lparr>func = sample_objective, x0 = Some [0, 0], call_bounds = None,
       fprime = Some (\<lambda>x. sample_num_diff x sample_objective (PFloat (1 / 10 ^ 8))),
       approx_grad = False, solver_options = default_options\<rparr>]"
  using optimize_batch_gradient [of "sample_self True" sample_env 2 sample_objective None
      "Some [0, 0]" "PFloat (1 / 10 ^ 8)"]
  by (simp add: sample_env_def sample_self_def sample_check_def default_options_def
      keyword_clash_def)

text \<open>
  C2. When no gradient function is given and the instance is not in batch mode, every
  call that \<^verbatim>\<open>optimize\<close> makes to the solver has \<^verbatim>\<open>approx_grad\<close> true and no \<^verbatim>\<open>fprime\<close>;
  and when the request check of the base class passes (for an instance whose options
  repeat no explicit keyword) that one call is made.
\<close>

theorem optimize_internal_approximation:
  assumes "\<not> self_batch_mode self"
  shows "(\<forall>c \<in> set (solver_calls (optimize env self n f None b p)).
            fprime c = None \<and> approx_grad c) \<and>
         (Optimizer_optimize env self n f None b p = Inr () \<and>
          \<not> keyword_clash (self_options self) \<longrightarrow>
            solver_calls (optimize env self n f None b p) =
              [\<lparr>func = f, x0 = p, call_bounds = b, fprime = None,
                approx_grad = True, solver_options = self_options self\<rparr>])"
  using assms
  by (simp add: optimize_def Let_def split: sum.split option.split prod.split)

theorem optimize_internal_approximation_witness:
  "solver_calls (optimize sample_env (sample_self False) 2 sample_objective None None
       (Some [0, 0])) =
     [\<lparr>func = sample_objective, x0 = Some [0, 0], call_bounds = None, fprime = None,
       approx_grad = True, solver_options = default_options\<rparr>]"
  using optimize_internal_approximation [of "sample_self False" sample_env 2 sample_objective
      None "Some [0, 0]"]
  by (simp add: sample_env_def sample_self_def sample_check_def default_options_def
      keyword_clash_def)

text \<open>
  C3. \<^verbatim>\<open>optimize\<close> returns a triple exactly when it called the solver once, the solver
  returned, and its \<^verbatim>\<open>info\<close> holds \<^verbatim>\<open>funcalls\<close>; the triple is the solver's final point,
  the solver's final value and \<^verbatim>\<open>info['funcalls']\<close>.
\<close>

theorem optimize_result:
  "outcome (optimize env self n f g b p) = Inr (sol, opt, count) \<longleftrightarrow>
     (\<exists>c info. solver_calls (optimize env self n f g b p) = [c] \<and>
        fmin_l_bfgs_b env c = Inr (sol, opt, info) \<and> info ''funcalls'' = Some count)"
  by (auto simp add: optimize_def Let_def split: sum.split option.split prod.split)

theorem optimize_result_witness:
  "outcome (optimize sample_env (sample_self False) 2 sample_objective (Some sample_gradient)
       None (Some [0, 0])) = Inr ([0, 0], 5, PInt 1)"
  using optimize_result [of sample_env "sample_self False" 2 sample_objective
      "Some sample_gradient" None "Some [0, 0]" "[0, 0]" 5 "PInt 1"]
  by (simp add: optimize_def sample_env_def sample_self_def sample_check_def
      default_options_def keyword_clash_def sample_solver_def sample_objective_def)

subsection \<open>Errors and state\<close>

lemma optimize_check_fails:
  "Optimizer_optimize env self n f g b p = Inl e \<Longrightarrow>
     optimize env self n f g b p = \<lparr>outcome = Inl e, adapter_after = self, solver_calls = []\<rparr>"
  by (simp add: optimize_def)

lemma solver_error_propagates:
  assumes "c \<in> set (solver_calls (optimize env self n f g b p))"
    and "fmin_l_bfgs_b env c = Inl e"
  shows "outcome (optimize env self n f g b p) = Inl e \<and>
         solver_calls (optimize env self n f g b p) = [c]"
  using assms
  by (auto simp add: optimize_def Let_def split: sum.splits option.splits prod.splits if_splits)

lemma sample_run_wrong_bounds:
  "optimize sample_env (sample_self False) 2 sample_objective None
       (Some [(None, Some (1 / 2))]) (Some [0, 0]) =
     \<lparr>outcome = Inl (ValueError ''length of x0 != length of bounds''),
      adapter_after = sample_self False,
      solver_calls = [\<lparr>func = sample_objective, x0 = Some [0, 0],
        call_bounds = Some [(None, Some (1 / 2))], fprime = None, approx_grad = True,
        solver_options = default_options\<rparr>]\<rparr>"
  by (simp add: optimize_def sample_env_def sample_self_def sample_check_def
      default_options_def keyword_clash_def sample_solver_def)

text \<open>
  C7. An exception of the request check of the base class or of the solver is what
  \<^verbatim>\<open>optimize\<close> raises, unchanged. When the request check raises, the solver is not called
  and the instance is as before; when the solver raises, it was called once, nothing is
  returned and the instance is as before.
\<close>

theorem optimize_propagates_errors:
  "(Optimizer_optimize env self n f g b p = Inl e \<longrightarrow>
      optimize env self n f g b p =
        \<lparr>outcome = Inl e, adapter_after = self, solver_calls = []\<rparr>) \<and>
   (\<forall>c \<in> set (solver_calls (optimize env self n f g b p)).
      fmin_l_bfgs_b env c = Inl e \<longrightarrow>
        outcome (optimize env self n f g b p) = Inl e \<and>
        solver_calls (optimize env self n f g b p) = [c] \<and>
        adapter_after (optimize env self n f g b p) = self)"
proof (intro conjI ballI impI)
  assume "Optimizer_optimize env self n f g b p = Inl e"
  then show "optimize env self n f g b p =
      \<lparr>outcome = Inl e, adapter_after = self, solver_calls = []\<rparr>"
    by (rule optimize_check_fails)
next
  fix c
  assume c: "c \<in> set (solver_calls (optimize env self n f g b p))"
    and e: "fmin_l_bfgs_b env c = Inl e"
  from solver_error_propagates [OF c e]
  show "outcome (optimize env self n f g b p) = Inl e"
    and "solver_calls (optimize env self n f g b p) = [c]"
    by simp_all
  show "adapter_after (optimize env self n f g b p) = self"
    by (rule adapter_after_optimize)
qed

theorem optimize_propagates_errors_witness:
  "optimize sample_env (sample_self False) 3 sample_objective None None (Some [0, 0]) =
     \<lparr>outcome = Inl (ValueError ''Initial point does not match dimension''),
      adapter_after = sample_self False, solver_calls = []\<rparr> \<and>
   outcome (optimize sample_env (sample_self False) 2 sample_objective None
       (Some [(None, Some (1 / 2))]) (Some [0, 0])) =
     Inl (ValueError ''length of x0 != length of bounds'')"
proof -
  have check: "Optimizer_optimize sample_env (sample_self False) 3 sample_objective None None
      (Some [0, 0]) = Inl (ValueError ''Initial point does not match dimension'')"
    by (simp add: sample_env_def sample_check_def)
  have solver: "fmin_l_bfgs_b sample_env
      \<lparr>func = sample_objective, x0 = Some [0, 0],
        call_bounds = Some [(None, Some (1 / 2))], fprime = None, approx_grad = True,
        solver_options = default_options\<rparr> =
      Inl (ValueError ''length of x0 != length of bounds'')"
    by (simp add: sample_env_def sample_solver_def)
  from check have "optimize sample_env (sample_self False) 3 sample_objective None None
      (Some [0, 0]) =
     \<lparr>outcome = Inl (ValueError ''Initial point does not match dimension''),
      adapter_after = sample_self False, solver_calls = []\<rparr>"
    using optimize_propagates_errors [of sample_env "sample_self False" 3 sample_objective
        None None "Some [0, 0]" "ValueError ''Initial point does not match dimension''"]
    by blast
  moreover from solver have "outcome (optimize sample_env (sample_self False) 2
      sample_objective None (Some [(None, Some (1 / 2))]) (Some [0, 0])) =
     Inl (ValueError ''length of x0 != length of bounds'')"
    using optimize_propagates_errors [of sample_env "sample_self False" 2 sample_objective
        None "Some [(None, Some (1 / 2))]" "Some [0, 0]"
        "ValueError ''length of x0 != length of bounds''"]
    by (simp add: sample_run_wrong_bounds)
  ultimately show ?thesis
    by simp
qed

lemma sample_run_with_gradient:
  "optimize sample_env (sample_self True) 2 sample_objective (Some sample_gradient) None
       (Some [0, 0]) =
     \<lparr>outcome = Inr ([0, 0], 5, PInt 1), adapter_after = sample_self True,
      solver_calls = [\<lparr>func = sample_objective, x0 = Some [0, 0], call_bounds = None,
        fprime = Some sample_gradient, approx_grad = False,
        solver_options = default_options\<rparr>]\<rparr>"
  by (simp add: optimize_def sample_env_def sample_self_def sample_check_def
      default_options_def keyword_clash_def sample_solver_def sample_objective_def)

text \<open>
  C8. \<^verbatim>\<open>optimize\<close> leaves the instance as it was, options included, and a second call on
  the instance with the same arguments (the objective, the gradient and the
  collaborators being functions of their arguments) gives the same run: the same
  result or exception, from the same solver call.
\<close>

theorem optimize_stateless:
  "adapter_after (optimize env self n f g b p) = self \<and>
   optimize env (adapter_after (optimize env self n f g b p)) n f g b p =
     optimize env self n f g b p"
  by (simp add: adapter_after_optimize)

theorem optimize_stateless_witness:
  "adapter_after (optimize sample_env (sample_self True) 2 sample_objective
       (Some sample_gradient) None (Some [0, 0])) = sample_self True \<and>
   outcome (optimize sample_env (adapter_after (optimize sample_env (sample_self True) 2
       sample_objective (Some sample_gradient) None (Some [0, 0]))) 2
       sample_objective (Some sample_gradient) None (Some [0, 0])) = Inr ([0, 0], 5, PInt 1)"
  using optimize_stateless [of sample_env "sample_self True" 2 sample_objective
      "Some sample_gradient" None "Some [0, 0]"]
  by (simp add: sample_run_with_gradient)

subsection \<open>What the solver receives\<close>

lemma sample_init:
  "L_BFGS_B_init True [PInt 500] [(''factr'', PInt 7)] =
     Inr \<lparr>self_configuration = CONFIGURATION,
          self_options = [''maxfun'' \<mapsto> PInt 500, ''maxiter'' \<mapsto> PInt 15000,
            ''factr'' \<mapsto> PInt 7, ''iprint'' \<mapsto> PInt (- 1), ''epsilon'' \<mapsto> PFloat (1 / 10 ^ 8)],
          self_batch_mode = True\<rparr>"
  by (simp add: L_BFGS_B_init_def bind_params_def init_params_def validate_def
      CONFIGURATION_def init_locals_def Optimizer_init_def)

lemma sample_values_given:
  "value_given [PInt 500] [(''factr'', PInt 7)] 0 = PInt 500"
  "value_given [PInt 500] [(''factr'', PInt 7)] 1 = PInt 15000"
  "value_given [PInt 500] [(''factr'', PInt 7)] 2 = PInt 7"
  "value_given [PInt 500] [(''factr'', PInt 7)] 3 = PInt (- 1)"
  "value_given [PInt 500] [(''factr'', PInt 7)] 4 = PFloat (1 / 10 ^ 8)"
  by (simp_all add: value_given_def init_params_def)

text \<open>
  C9. For an instance as the constructor made it, every call that \<^verbatim>\<open>optimize\<close> makes to
  the solver passes the objective function, the initial point, the bounds, the
  gradient function (the caller's, or in batch mode the wrapped numerical gradient for
  the \<^verbatim>\<open>epsilon\<close> given at construction, or none) with \<^verbatim>\<open>approx_grad\<close> true exactly when
  there is none, and as keywords exactly the five options \<^verbatim>\<open>maxfun\<close>, \<^verbatim>\<open>maxiter\<close>,
  \<^verbatim>\<open>factr\<close>, \<^verbatim>\<open>iprint\<close>, \<^verbatim>\<open>epsilon\<close>, each with the value given at construction: no other
  local of the constructor is among them. When the request check of the base class
  passes, that one call is made.
\<close>

theorem optimize_passes_configuration:
  assumes "L_BFGS_B_init bm args kw = Inr self"
  shows "(\<forall>c \<in> set (solver_calls (optimize env self n f g b p)).
            func c = f \<and> x0 c = p \<and> call_bounds c = b \<and>
            fprime c =
              (case g of
                 Some g' \<Rightarrow> Some g'
               | None \<Rightarrow>
                   if self_batch_mode self
                   then Some (wrap_function env (gradient_num_diff env) (f, value_given args kw 4))
                   else None) \<and>
            approx_grad c = (fprime c = None) \<and>
            solver_options c =
              [''maxfun'' \<mapsto> value_given args kw 0, ''maxiter'' \<mapsto> value_given args kw 1,
               ''factr'' \<mapsto> value_given args kw 2, ''iprint'' \<mapsto> value_given args kw 3,
               ''epsilon'' \<mapsto> value_given args kw 4]) \<and>
         (Optimizer_optimize env self n f g b p = Inr () \<longrightarrow>
            length (solver_calls (optimize env self n f g b p)) = 1)"
proof (intro conjI ballI impI)
  note o = init_options [OF assms]
  have e: "self_options self ''epsilon'' = Some (value_given args kw 4)"
    by (simp add: o)
  {
    fix c
    assume c: "c \<in> set (solver_calls (optimize env self n f g b p))"
    note shape = solver_call_shape [OF c]
    from shape show "func c = f"
      by simp
    from shape show "x0 c = p"
      by simp
    from shape show "call_bounds c = b"
      by simp
    from shape show "approx_grad c = (fprime c = None)"
      by simp
    from shape o show "solver_options c =
              [''maxfun'' \<mapsto> value_given args kw 0, ''maxiter'' \<mapsto> value_given args kw 1,
               ''factr'' \<mapsto> value_given args kw 2, ''iprint'' \<mapsto> value_given args kw 3,
               ''epsilon'' \<mapsto> value_given args kw 4]"
      by simp
    from shape have "fprime c =
           (case g of
              Some g' \<Rightarrow> Some g'
            | None \<Rightarrow>
                if self_batch_mode self
                then map_option (\<lambda>epsilon. wrap_function env (gradient_num_diff env) (f, epsilon))
                       (self_options self ''epsilon'')
                else None)"
      by simp
    then show "fprime c =
              (case g of
                 Some g' \<Rightarrow> Some g'
               | None \<Rightarrow>
                   if self_batch_mode self
                   then Some (wrap_function env (gradient_num_diff env) (f, value_given args kw 4))
                   else None)"
      by (simp only: e option.map)
  }
  assume "Optimizer_optimize env self n f g b p = Inr ()"
  then show "length (solver_calls (optimize env self n f g b p)) = 1"
    using no_clash_after_init [OF assms] e by (rule solver_called_once)
qed

theorem optimize_passes_configuration_witness:
  "solver_calls (optimize sample_env
        \<lparr>self_configuration = CONFIGURATION,
         self_options = [''maxfun'' \<mapsto> PInt 500, ''maxiter'' \<mapsto> PInt 15000,
           ''factr'' \<mapsto> PInt 7, ''iprint'' \<mapsto> PInt (- 1), ''epsilon'' \<mapsto> PFloat (1 / 10 ^ 8)],
         self_batch_mode = True\<rparr>
        2 sample_objective None None (Some [0, 0])) =
     [\<lparr>func = sample_objective, x0 = Some [0, 0], call_bounds = None,
       fprime = Some (wrap_function sample_env (gradient_num_diff sample_env)
         (sample_objective, PFloat (1 / 10 ^ 8))),
       approx_grad = False,
       solver_options = [''maxfun'' \<mapsto> PInt 500, ''maxiter'' \<mapsto> PInt 15000,
         ''factr'' \<mapsto> PInt 7, ''iprint'' \<mapsto> PInt (- 1), ''epsilon'' \<mapsto> PFloat (1 / 10 ^ 8)]\<rparr>]"
proof -
  let ?self = "\<lparr>self_configuration = CONFIGURATION,
         self_options = [''maxfun'' \<mapsto> PInt 500, ''maxiter'' \<mapsto> PInt 15000,
           ''factr'' \<mapsto> PInt 7, ''iprint'' \<mapsto> PInt (- 1), ''epsilon'' \<mapsto> PFloat (1 / 10 ^ 8)],
         self_batch_mode = True\<rparr>"
  let ?calls = "solver_calls (optimize sample_env ?self 2 sample_objective None None
      (Some [0, 0]))"
  have check: "Optimizer_optimize sample_env ?self 2 sample_objective None None
      (Some [0, 0]) = Inr ()"
    by (simp add: sample_env_def sample_check_def)
  note t = optimize_passes_configuration [OF sample_init, of sample_env 2 sample_objective
      None None "Some [0, 0]", unfolded sample_values_given]
  from t check have len: "length ?calls = 1"
    by blast
  then obtain c where c: "?calls = [c]"
    by (cases ?calls) auto
  with t have "func c = sample_objective" and "x0 c = Some [0, 0]" and "call_bounds c = None"
    and "fprime c = Some (wrap_function sample_env (gradient_num_diff sample_env)
         (sample_objective, PFloat (1 / 10 ^ 8)))"
    and "approx_grad c = False"
    and "solver_options c = [''maxfun'' \<mapsto> PInt 500, ''maxiter'' \<mapsto> PInt 15000,
         ''factr'' \<mapsto> PInt 7, ''iprint'' \<mapsto> PInt (- 1), ''epsilon'' \<mapsto> PFloat (1 / 10 ^ 8)]"
    by simp_all
  then have "c = \<lparr>func = sample_objective, x0 = Some [0, 0], call_bounds = None,
       fprime = Some (wrap_function sample_env (gradient_num_diff sample_env)
         (sample_objective, PFloat (1 / 10 ^ 8))),
       approx_grad = False,
       solver_options = [''maxfun'' \<mapsto> PInt 500, ''maxiter'' \<mapsto> PInt 15000,
         ''factr'' \<mapsto> PInt 7, ''iprint'' \<mapsto> PInt (- 1), ''epsilon'' \<mapsto> PFloat (1 / 10 ^ 8)]\<rparr>"
    by (cases c) simp
  with c show ?thesis
    by simp
qed

lemma sample_run_no_gradient:
  "optimize sample_env (sample_self False) 2 sample_objective None None (Some [0, 0]) =
     \<lparr>outcome = Inr ([0, 0], 5, PInt 1), adapter_after = sample_self False,
      solver_calls = [\<lparr>func = sample_objective, x0 = Some [0, 0], call_bounds = None,
        fprime = None, approx_grad = True, solver_options = default_options\<rparr>]\<rparr>"
  by (simp add: optimize_def sample_env_def sample_self_def sample_check_def
      default_options_def keyword_clash_def sample_solver_def sample_objective_def)

text \<open>
  C10. In every call that \<^verbatim>\<open>optimize\<close> makes to the solver, whatever the instance, its
  batch mode and the caller's gradient function, \<^verbatim>\<open>approx_grad\<close> is true exactly when
  \<^verbatim>\<open>fprime\<close> is \<^verbatim>\<open>None\<close>.
\<close>

theorem optimize_flag_iff_no_gradient:
  "\<forall>c \<in> set (solver_calls (optimize env self n f g b p)). approx_grad c \<longleftrightarrow> fprime c = None"
proof
  fix c
  assume "c \<in> set (solver_calls (optimize env self n f g b p))"
  from solver_call_shape [OF this] show "approx_grad c \<longleftrightarrow> fprime c = None"
    by simp
qed

theorem optimize_flag_iff_no_gradient_witness:
  "solver_calls (optimize sample_env (sample_self False) 2 sample_objective None None
       (Some [0, 0])) \<noteq> [] \<and>
   list_all (\<lambda>c. approx_grad c \<longleftrightarrow> fprime c = None)
     (solver_calls (optimize sample_env (sample_self False) 2 sample_objective None None
        (Some [0, 0])))"
  using optimize_flag_iff_no_gradient [of sample_env "sample_self False" 2 sample_objective
      None None "Some [0, 0]"]
  by (simp add: sample_run_no_gradient)

end
